theory Spec2Isabelle
  imports Complex_Main "HOL-Library.Multiset"
begin

section \<open>Values shared by the adapters\<close>

text \<open>
  A TypeScript \<open>number\<close> that holds a count, a limit or a duration is modelled as an
  \<open>int\<close> (fractions and NaN are left out); an optional field of a configuration object
  is an \<open>option\<close>, \<open>None\<close> standing for \<open>undefined\<close>.
\<close>

definition truthy :: "int option \<Rightarrow> bool" where
  "truthy v = (case v of None \<Rightarrow> False | Some n \<Rightarrow> n \<noteq> 0)"

text \<open>The idiom \<open>v || d\<close> on an optional number: \<open>undefined\<close> and \<open>0\<close> give \<open>d\<close>.\<close>

definition orDefault :: "int option \<Rightarrow> int \<Rightarrow> int" where
  "orDefault v d = (case v of None \<Rightarrow> d | Some n \<Rightarrow> if n = 0 then d else n)"

fun digits :: "nat \<Rightarrow> string" where
  "digits n = (if n < 10 then [''0123456789'' ! n]
               else digits (n div 10) @ [''0123456789'' ! (n mod 10)])"

declare digits.simps [simp del]

text \<open>A number inside a template literal.\<close>

definition showNumber :: "int \<Rightarrow> string" where
  "showNumber n = (if n < 0 then ''-'' @ digits (nat (- n)) else digits (nat n))"

datatype adapterType = sync | async | universal

text \<open>
  The \<open>Error\<close> objects of \<open>types.ts\<close>. \<open>Failure m\<close> is an error with message \<open>m\<close>
  raised by an adapter's own \<open>execute\<close> or \<open>canHandle\<close>; \<open>AdapterError\<close> lists the fields
  \<open>name\<close>, \<open>message\<close>, \<open>adapterType\<close>, \<open>originalError\<close> and \<open>input\<close>.
\<close>

datatype 'i error =
    Failure string
  | AdapterError string string adapterType "'i error option" "'i option"

fun errorMessage :: "'i error \<Rightarrow> string" where
  "errorMessage (Failure m) = m"
| "errorMessage (AdapterError n m t orig inp) = m"

definition SyncAdapterError :: "string \<Rightarrow> 'i error option \<Rightarrow> 'i option \<Rightarrow> 'i error" where
  "SyncAdapterError m orig inp = AdapterError ''SyncAdapterError'' m sync orig inp"

definition AsyncAdapterError :: "string \<Rightarrow> 'i error option \<Rightarrow> 'i option \<Rightarrow> 'i error" where
  "AsyncAdapterError m orig inp = AdapterError ''AsyncAdapterError'' m async orig inp"

text \<open>
  What a call can raise: an \<open>Error\<close> object, the value \<open>undefined\<close> (from
  \<open>throw lastError!\<close> when no attempt ran) or the \<open>TypeError\<close> of reading
  \<open>lastError!.message\<close> when \<open>lastError\<close> is \<open>undefined\<close>.
\<close>

datatype 'i raised = Err "'i error" | UndefinedThrown | TypeError string

section \<open>The synchronous adapter (\<open>src/adapter/sync.ts\<close>)\<close>

record SyncAdapterConfig =
  retries :: "int option"
  maxExecutionTime :: "int option"
  priority :: "int option"

text \<open>
  The adapter's abstract \<open>execute\<close> is a parameter: its \<open>k\<close>-th invocation (from 0)
  returns or raises, and \<open>Date.now()\<close> measures the given number of milliseconds around it.
\<close>

type_synonym ('i, 'o) syncExecute = "nat \<Rightarrow> ('i error + 'o) \<times> int"

text \<open>The \<open>try\<close> block of one attempt: \<open>Inl\<close> is what the \<open>catch\<close> clause receives.\<close>

definition syncAttempt ::
  "SyncAdapterConfig \<Rightarrow> ('i, 'o) syncExecute \<Rightarrow> 'i \<Rightarrow> nat \<Rightarrow> 'i error + 'o" where
  "syncAttempt cfg exec inp attempt =
     (case exec attempt of
        (Inl e, executionTime) \<Rightarrow> Inl e
      | (Inr result, executionTime) \<Rightarrow>
          if truthy (maxExecutionTime cfg) \<and> executionTime > the (maxExecutionTime cfg)
          then Inl (SyncAdapterError
                 (''Execution time '' @ showNumber executionTime @ ''ms exceeded maximum ''
                    @ showNumber (the (maxExecutionTime cfg)) @ ''ms'')
                 None (Some inp))
          else Inr result)"

definition syncExhausted :: "int \<Rightarrow> 'i error \<Rightarrow> 'i \<Rightarrow> 'i error" where
  "syncExhausted maxRetries lastError inp =
     SyncAdapterError
       (''Sync adapter failed after '' @ showNumber maxRetries @ '' attempts: ''
          @ errorMessage lastError)
       (Some lastError) (Some inp)"

text \<open>
  The \<open>for\<close> loop of \<open>executeWithRetry\<close>, from iteration \<open>attempt\<close> on. The first
  component of the result lists the attempts at which \<open>execute\<close> was invoked.
\<close>

function executeWithRetryFrom ::
  "SyncAdapterConfig \<Rightarrow> ('i, 'o) syncExecute \<Rightarrow> 'i \<Rightarrow> nat \<Rightarrow> 'i error option
     \<Rightarrow> nat list \<times> ('i raised + 'o)" where
  "executeWithRetryFrom cfg exec inp attempt lastError =
     (if int attempt < orDefault (SyncAdapterConfig.retries cfg) 1 then
        (case syncAttempt cfg exec inp attempt of
           Inr result \<Rightarrow> ([attempt], Inr result)
         | Inl e \<Rightarrow>
             if int attempt = orDefault (SyncAdapterConfig.retries cfg) 1 - 1
             then ([attempt],
                   Inl (Err (syncExhausted (orDefault (SyncAdapterConfig.retries cfg) 1) e inp)))
             else (case executeWithRetryFrom cfg exec inp (Suc attempt) (Some e) of
                     (calls, r) \<Rightarrow> (attempt # calls, r)))
      else ([], Inl (case lastError of None \<Rightarrow> UndefinedThrown | Some e \<Rightarrow> Err e)))"
  by pat_completeness auto
termination
  by (relation "measure (\<lambda>(cfg, exec, inp, attempt, lastError).
        nat (orDefault (SyncAdapterConfig.retries cfg) 1) - attempt)") auto

declare executeWithRetryFrom.simps [simp del]

definition executeWithRetry ::
  "SyncAdapterConfig \<Rightarrow> ('i, 'o) syncExecute \<Rightarrow> 'i \<Rightarrow> nat list \<times> ('i raised + 'o)" where
  "executeWithRetry cfg exec inp = executeWithRetryFrom cfg exec inp 0 None"

section \<open>The asynchronous adapter: one retrying execution\<close>

datatype backoff = linear | exponential

record AsyncAdapterConfig =
  timeout :: "int option"
  retries :: "int option"
  concurrency :: "int option"
  queueSize :: "int option"
  backoff :: "backoff option"
  priority :: "int option"

definition calculateBackoffDelay :: "AsyncAdapterConfig \<Rightarrow> nat \<Rightarrow> int" where
  "calculateBackoffDelay cfg attempt =
     (let baseDelay = 1000 in
      if backoff cfg = Some exponential
      then baseDelay * 2 ^ attempt
      else baseDelay * (int attempt + 1))"

text \<open>
  How the promise of one \<open>execute\<close> call fares against the timer of its attempt:
  it fulfils or rejects first, or it is still pending when the timer (if there is one)
  fires; without a timer \<open>Pending\<close> is a promise that never settles.
\<close>

datatype ('i, 'o) settle = Fulfils 'o | Rejects "'i error" | Pending

type_synonym ('i, 'o) asyncExecute = "nat \<Rightarrow> ('i, 'o) settle"

text \<open>
  The awaited expression of one attempt (\<open>Promise.race\<close> when \<open>config.timeout\<close> is
  truthy, the bare promise otherwise); \<open>None\<close> when the \<open>await\<close> never resumes.
\<close>

definition awaitAttempt ::
  "AsyncAdapterConfig \<Rightarrow> 'i \<Rightarrow> ('i, 'o) settle \<Rightarrow> ('i error + 'o) option" where
  "awaitAttempt cfg inp s =
     (case s of
        Fulfils result \<Rightarrow> Some (Inr result)
      | Rejects e \<Rightarrow> Some (Inl e)
      | Pending \<Rightarrow>
          if truthy (timeout cfg)
          then Some (Inl (AsyncAdapterError ''Request timeout'' None (Some inp)))
          else None)"

definition asyncExhausted :: "int \<Rightarrow> 'i error option \<Rightarrow> 'i \<Rightarrow> 'i raised" where
  "asyncExhausted maxRetries lastError inp =
     (case lastError of
        None \<Rightarrow> TypeError ''undefined is not an object''
      | Some e \<Rightarrow>
          Err (AsyncAdapterError
                 (''Async adapter failed after '' @ showNumber maxRetries @ '' attempts: ''
                    @ errorMessage e)
                 (Some e) (Some inp)))"

text \<open>
  What one run of \<open>performExecuteWithRetry\<close> does, in order: \<open>Increment\<close> and
  \<open>Decrement\<close> of \<open>activeExecutions\<close>, the invocation of \<open>execute\<close> at an attempt, and
  the back-off sleep of the given milliseconds.
\<close>

datatype action = Increment | Execute nat | Sleep int | Decrement

text \<open>
  The \<open>for\<close> loop of \<open>performExecuteWithRetry\<close>, from iteration \<open>attempt\<close> on. The
  result is \<open>None\<close> when the run never returns.
\<close>

function performExecuteWithRetryFrom ::
  "AsyncAdapterConfig \<Rightarrow> ('i, 'o) asyncExecute \<Rightarrow> 'i \<Rightarrow> nat \<Rightarrow> 'i error option
     \<Rightarrow> action list \<times> ('i raised + 'o) option" where
  "performExecuteWithRetryFrom cfg exec inp attempt lastError =
     (if int attempt < orDefault (AsyncAdapterConfig.retries cfg) 1 then
        (case awaitAttempt cfg inp (exec attempt) of
           None \<Rightarrow> ([Increment, Execute attempt], None)
         | Some (Inr result) \<Rightarrow> ([Increment, Execute attempt, Decrement], Some (Inr result))
         | Some (Inl e) \<Rightarrow>
             (case performExecuteWithRetryFrom cfg exec inp (Suc attempt) (Some e) of
                (acts, r) \<Rightarrow>
                  ([Increment, Execute attempt]
                     @ (if int attempt < orDefault (AsyncAdapterConfig.retries cfg) 1 - 1
                        then [Sleep (calculateBackoffDelay cfg attempt)] else [])
                     @ [Decrement] @ acts, r)))
      else ([], Some (Inl (asyncExhausted (orDefault (AsyncAdapterConfig.retries cfg) 1)
                             lastError inp))))"
  by pat_completeness auto
termination
  by (relation "measure (\<lambda>(cfg, exec, inp, attempt, lastError).
        nat (orDefault (AsyncAdapterConfig.retries cfg) 1) - attempt)") auto

declare performExecuteWithRetryFrom.simps [simp del]

definition performExecuteWithRetry ::
  "AsyncAdapterConfig \<Rightarrow> ('i, 'o) asyncExecute \<Rightarrow> 'i
     \<Rightarrow> action list \<times> ('i raised + 'o) option" where
  "performExecuteWithRetry cfg exec inp = performExecuteWithRetryFrom cfg exec inp 0 None"


text \<open>What a failed attempt that is not the last one does.\<close>

definition failedAttempt :: "AsyncAdapterConfig \<Rightarrow> nat \<Rightarrow> action list" where
  "failedAttempt cfg j = [Increment, Execute j, Sleep (calculateBackoffDelay cfg j), Decrement]"

text \<open>The change of \<open>activeExecutions\<close> over a list of actions.\<close>

fun netChange :: "action list \<Rightarrow> int" where
  "netChange [] = 0"
| "netChange (Increment # as) = netChange as + 1"
| "netChange (Decrement # as) = netChange as - 1"
| "netChange (a # as) = netChange as"

section \<open>The asynchronous adapter: queue and concurrency counter\<close>

text \<open>
  The adapter runs on one cooperative scheduler: between two suspension points a turn is
  atomic. The state below is what the turns share, and each submitted operation (numbered
  in the order of submission) is at one of these points:
  \<^item> \<open>Queued\<close>: its closure is in \<open>executionQueue\<close>;
  \<^item> \<open>Polling\<close>: \<open>queuedOperation\<close> sleeps in its \<open>while\<close> loop;
  \<^item> \<open>Attempting k\<close>: \<open>performExecuteWithRetry\<close> awaits the race of attempt \<open>k\<close>;
  \<^item> \<open>BackingOff k e\<close>: it sleeps in the \<open>catch\<close> clause after attempt \<open>k\<close> failed with \<open>e\<close>;
  \<^item> \<open>Settled r\<close>: it has returned or raised, the \<open>finally\<close> callback that calls
    \<open>processQueue\<close> has not run yet;
  \<^item> \<open>Done r\<close>: nothing is left to run for it.
\<close>

datatype ('i, 'o) phase =
    Queued
  | Polling
  | Attempting nat
  | BackingOff nat "'i error"
  | Settled "'i raised + 'o"
  | Done "'i raised + 'o"

record ('i, 'o) adapterState =
  executionQueue :: "nat list"
  activeExecutions :: int
  operations :: "('i \<times> ('i, 'o) phase) list"


text \<open>The expressions \<open>this.config.concurrency || 5\<close> and \<open>this.config.queueSize || 100\<close>.\<close>

definition concurrencyLimit :: "AsyncAdapterConfig \<Rightarrow> int" where
  "concurrencyLimit cfg = orDefault (concurrency cfg) 5"

definition queueCapacity :: "AsyncAdapterConfig \<Rightarrow> int" where
  "queueCapacity cfg = orDefault (queueSize cfg) 100"

definition setPhase ::
  "nat \<Rightarrow> ('i, 'o) phase \<Rightarrow> ('i, 'o) adapterState \<Rightarrow> ('i, 'o) adapterState" where
  "setPhase t p s = s\<lparr>operations := (operations s)[t := (fst (operations s ! t), p)]\<rparr>"

text \<open>
  The head of the \<open>for\<close> loop at iteration \<open>attempt\<close>, up to the \<open>await\<close> of the
  \<open>try\<close> block, or to the \<open>throw\<close> after the loop.
\<close>

definition enterAttempt ::
  "AsyncAdapterConfig \<Rightarrow> nat \<Rightarrow> nat \<Rightarrow> 'i error option \<Rightarrow> ('i, 'o) adapterState
     \<Rightarrow> ('i, 'o) adapterState" where
  "enterAttempt cfg t attempt lastError s =
     (if int attempt < orDefault (AsyncAdapterConfig.retries cfg) 1
      then setPhase t (Attempting attempt) (s\<lparr>activeExecutions := activeExecutions s + 1\<rparr>)
      else setPhase t
             (Settled (Inl (asyncExhausted (orDefault (AsyncAdapterConfig.retries cfg) 1)
                              lastError (fst (operations s ! t))))) s)"

text \<open>
  The turn that resumes the \<open>await\<close> of attempt \<open>attempt\<close>: \<open>return\<close> through
  \<open>finally\<close>, or the \<open>catch\<close> clause, which sleeps before \<open>finally\<close> when the attempt
  is not the last one. Without a timer nothing resumes a pending promise.
\<close>

definition attemptSettles ::
  "AsyncAdapterConfig \<Rightarrow> nat \<Rightarrow> nat \<Rightarrow> ('i, 'o) settle \<Rightarrow> ('i, 'o) adapterState
     \<Rightarrow> ('i, 'o) adapterState" where
  "attemptSettles cfg t attempt out s =
     (case awaitAttempt cfg (fst (operations s ! t)) out of
        None \<Rightarrow> s
      | Some (Inr result) \<Rightarrow>
          setPhase t (Settled (Inr result)) (s\<lparr>activeExecutions := activeExecutions s - 1\<rparr>)
      | Some (Inl e) \<Rightarrow>
          if int attempt < orDefault (AsyncAdapterConfig.retries cfg) 1 - 1
          then setPhase t (BackingOff attempt e) s
          else enterAttempt cfg t (Suc attempt) (Some e)
                 (s\<lparr>activeExecutions := activeExecutions s - 1\<rparr>))"

text \<open>The turn after the back-off sleep: \<open>finally\<close>, then the next iteration.\<close>

definition backoffElapsed ::
  "AsyncAdapterConfig \<Rightarrow> nat \<Rightarrow> nat \<Rightarrow> 'i error \<Rightarrow> ('i, 'o) adapterState
     \<Rightarrow> ('i, 'o) adapterState" where
  "backoffElapsed cfg t attempt e s =
     enterAttempt cfg t (Suc attempt) (Some e) (s\<lparr>activeExecutions := activeExecutions s - 1\<rparr>)"

text \<open>The closure \<open>queuedOperation\<close> of \<open>addToQueue\<close>, from its \<open>while\<close> test on.\<close>

definition queuedOperation ::
  "AsyncAdapterConfig \<Rightarrow> nat \<Rightarrow> ('i, 'o) adapterState \<Rightarrow> ('i, 'o) adapterState" where
  "queuedOperation cfg t s =
     (if activeExecutions s \<ge> concurrencyLimit cfg
      then setPhase t Polling s
      else enterAttempt cfg t 0 None s)"

definition processQueue ::
  "AsyncAdapterConfig \<Rightarrow> ('i, 'o) adapterState \<Rightarrow> ('i, 'o) adapterState" where
  "processQueue cfg s =
     (if length (executionQueue s) = 0 \<or> activeExecutions s \<ge> concurrencyLimit cfg then s
      else (case executionQueue s of
              [] \<Rightarrow> s
            | t # rest \<Rightarrow> queuedOperation cfg t (s\<lparr>executionQueue := rest\<rparr>)))"

definition queueFull :: "'i raised" where
  "queueFull = Err (AsyncAdapterError ''Execution queue is full'' None None)"

definition addToQueue ::
  "AsyncAdapterConfig \<Rightarrow> 'i \<Rightarrow> ('i, 'o) adapterState \<Rightarrow> ('i, 'o) adapterState" where
  "addToQueue cfg inp s =
     (if int (length (executionQueue s)) \<ge> queueCapacity cfg
      then s\<lparr>operations := operations s @ [(inp, Done (Inl queueFull))]\<rparr>
      else processQueue cfg
             (s\<lparr>executionQueue := executionQueue s @ [length (operations s)],
                operations := operations s @ [(inp, Queued)]\<rparr>))"

text \<open>
  What starts a turn: a call of \<open>executeWithRetry\<close>, the 10 ms timer of a polling
  operation, the settling of the awaited race of an attempt (\<open>Pending\<close>: its timer
  fires first), the back-off timer, and the \<open>finally\<close> callback of a settled operation.
  An event for an operation that is not at the matching point changes nothing.
\<close>

datatype ('i, 'o) event =
    Submit 'i
  | Poll nat
  | Settles nat "('i, 'o) settle"
  | TimerElapsed nat
  | Finally nat

fun step ::
  "AsyncAdapterConfig \<Rightarrow> ('i, 'o) event \<Rightarrow> ('i, 'o) adapterState \<Rightarrow> ('i, 'o) adapterState" where
  "step cfg (Submit inp) s = addToQueue cfg inp s"
| "step cfg (Poll t) s =
     (if t < length (operations s)
      then (case snd (operations s ! t) of Polling \<Rightarrow> queuedOperation cfg t s | _ \<Rightarrow> s)
      else s)"
| "step cfg (Settles t out) s =
     (if t < length (operations s)
      then (case snd (operations s ! t) of
              Attempting attempt \<Rightarrow> attemptSettles cfg t attempt out s
            | _ \<Rightarrow> s)
      else s)"
| "step cfg (TimerElapsed t) s =
     (if t < length (operations s)
      then (case snd (operations s ! t) of
              BackingOff attempt e \<Rightarrow> backoffElapsed cfg t attempt e s
            | _ \<Rightarrow> s)
      else s)"
| "step cfg (Finally t) s =
     (if t < length (operations s)
      then (case snd (operations s ! t) of
              Settled r \<Rightarrow> processQueue cfg (setPhase t (Done r) s)
            | _ \<Rightarrow> s)
      else s)"

fun run ::
  "AsyncAdapterConfig \<Rightarrow> ('i, 'o) event list \<Rightarrow> ('i, 'o) adapterState \<Rightarrow> ('i, 'o) adapterState" where
  "run cfg [] s = s"
| "run cfg (e # es) s = run cfg es (step cfg e s)"

text \<open>The operations that are between an increment and its decrement.\<close>

fun holdsSlot :: "('i, 'o) phase \<Rightarrow> bool" where
  "holdsSlot (Attempting attempt) = True"
| "holdsSlot (BackingOff attempt e) = True"
| "holdsSlot p = False"

definition inFlight :: "('i, 'o) adapterState \<Rightarrow> nat" where
  "inFlight s = length (filter (\<lambda>op. holdsSlot (snd op)) (operations s))"

text \<open>The queue holds distinct operations, all of them still waiting to start.\<close>

definition queueOk :: "('i, 'o) adapterState \<Rightarrow> bool" where
  "queueOk s \<longleftrightarrow>
     distinct (executionQueue s)
     \<and> (\<forall>t \<in> set (executionQueue s). t < length (operations s) \<and> snd (operations s ! t) = Queued)"


text \<open>
  The turns of one operation \<open>t\<close> from its attempt \<open>attempt\<close> on, when its calls of
  \<open>execute\<close> fare as \<open>exec\<close> says and every timer fires.
\<close>

function turnsFrom ::
  "AsyncAdapterConfig \<Rightarrow> ('i, 'o) asyncExecute \<Rightarrow> 'i \<Rightarrow> nat \<Rightarrow> nat \<Rightarrow> ('i, 'o) event list" where
  "turnsFrom cfg exec inp t attempt =
     (if int attempt < orDefault (AsyncAdapterConfig.retries cfg) 1 then
        Settles t (exec attempt)
        # (case awaitAttempt cfg inp (exec attempt) of
             Some (Inl e) \<Rightarrow>
               if int attempt < orDefault (AsyncAdapterConfig.retries cfg) 1 - 1
               then TimerElapsed t # turnsFrom cfg exec inp t (Suc attempt)
               else []
           | _ \<Rightarrow> [])
      else [])"
  by pat_completeness auto
termination
  by (relation "measure (\<lambda>(cfg, exec, inp, t, attempt).
        nat (orDefault (AsyncAdapterConfig.retries cfg) 1) - attempt)") auto

declare turnsFrom.simps [simp del]

section \<open>The adapter manager\<close>

text \<open>
  A registered synchronous adapter as \<open>AdapterManager\<close> sees it: \<open>canHandle\<close> and
  \<open>execute\<close> return or raise, \<open>withRetry\<close> is the adapter's \<open>executeWithRetry\<close> method
  when it has one, and \<open>config\<close> its \<open>config\<close> property when it has one.
\<close>

record ('i, 'o) SyncAdapter =
  canHandle :: "'i \<Rightarrow> 'i raised + bool"
  execute :: "'i \<Rightarrow> 'i raised + 'o"
  withRetry :: "('i \<Rightarrow> 'i raised + 'o) option"
  config :: "SyncAdapterConfig option"









section \<open>The HTTP client\<close>

subsection \<open>Values and configuration objects\<close>

datatype HttpMethod = GET | POST | PUT | PATCH | DELETE | HEAD | OPTIONS

text \<open>
  The values a payload of type \<open>any\<close> can take, as far as the client tells them apart:
  the falsy values, strings, numbers, \<open>FormData\<close> and \<open>Blob\<close> objects, and every other
  object (named by its JSON text).
\<close>

datatype jsValue =
    JsUndefined | JsNull | JsBoolean bool | JsNumber int | JsString string
  | JsObject string | JsFormData string | JsBlob string

fun jsTruthy :: "jsValue \<Rightarrow> bool" where
  "jsTruthy JsUndefined = False"
| "jsTruthy JsNull = False"
| "jsTruthy (JsBoolean b) = b"
| "jsTruthy (JsNumber n) = (n \<noteq> 0)"
| "jsTruthy (JsString s) = (s \<noteq> [])"
| "jsTruthy (JsObject s) = True"
| "jsTruthy (JsFormData s) = True"
| "jsTruthy (JsBlob s) = True"

text \<open>
  An optional property of an object literal: not an own property, an own property that
  holds \<open>undefined\<close>, or one that holds a value. Reading gives \<open>undefined\<close> in the first
  two cases; the spread \<open>{...d, ...c}\<close> keeps the property of \<open>d\<close> only in the first.
\<close>

datatype 'a optional = Absent | Undefined | Val 'a

fun valueOf :: "'a optional \<Rightarrow> 'a option" where
  "valueOf (Val v) = Some v"
| "valueOf p = None"

definition spread :: "'a optional \<Rightarrow> 'a optional \<Rightarrow> 'a optional" where
  "spread d c = (case c of Absent \<Rightarrow> d | _ \<Rightarrow> c)"

text \<open>\<open>s || d\<close> on an optional string: \<open>undefined\<close> and the empty string give \<open>d\<close>.\<close>

definition nonEmpty :: "string option \<Rightarrow> string option" where
  "nonEmpty s = (case s of None \<Rightarrow> None | Some v \<Rightarrow> if v = [] then None else Some v)"

type_synonym headerMap = "string \<rightharpoonup> string"

record AdapterConfig =
  baseURL :: "string optional"
  timeout :: "int optional"
  headers :: "headerMap optional"
  retries :: "int optional"
  validateStatus :: "(int \<Rightarrow> bool) optional"
  transformRequest :: "(jsValue \<Rightarrow> jsValue) optional"
  transformResponse :: "(jsValue \<Rightarrow> jsValue) optional"

record RequestConfig =
  method' :: "HttpMethod optional"
  url :: "string optional"
  baseURL :: "string optional"
  headers :: "headerMap optional"
  params :: "(string \<times> jsValue) list optional"
  data :: "jsValue optional"
  timeout :: "int optional"
  retries :: "int optional"
  validateStatus :: "(int \<Rightarrow> bool) optional"
  transformRequest :: "(jsValue \<Rightarrow> jsValue) optional"
  transformResponse :: "(jsValue \<Rightarrow> jsValue) optional"
  signal :: "unit optional"

text \<open>The platform's \<open>Request\<close> object, as built by \<open>makeRequest\<close>.\<close>

datatype body = TextBody string | FormDataBody string

datatype abortSignal = CallerSignal | ControllerSignal

record Request =
  url :: string
  method' :: HttpMethod
  headers :: "headerMap option"
  body :: "body option"
  signal :: abortSignal

record HttpResponse =
  data :: jsValue
  status :: int
  statusText :: string
  headers :: headerMap
  config :: RequestConfig
  request :: "Request option"

text \<open>The class \<open>HttpError\<close> of \<open>http-error.ts\<close>, with its constructor's parameters.\<close>

record HttpError =
  message :: string
  config :: "RequestConfig option"
  request :: "Request option"
  response :: "HttpResponse option"
  code :: "string option"
  status :: "int option"

definition fromResponse :: "HttpResponse \<Rightarrow> RequestConfig \<Rightarrow> HttpError" where
  "fromResponse resp cfg =
     \<lparr>HttpError.message = ''Request failed with status '' @ showNumber (HttpResponse.status resp)
                   @ '': '' @ HttpResponse.statusText resp,
      HttpError.config = Some cfg, HttpError.request = None, HttpError.response = Some resp,
      HttpError.code = Some ''REQUEST_FAILED'', HttpError.status = Some (HttpResponse.status resp)\<rparr>"

definition fromNetworkError :: "string \<Rightarrow> RequestConfig \<Rightarrow> HttpError" where
  "fromNetworkError m cfg =
     \<lparr>HttpError.message = ''Network Error: '' @ m,
      HttpError.config = Some cfg, HttpError.request = None, HttpError.response = None,
      HttpError.code = Some ''NETWORK_ERROR'', HttpError.status = None\<rparr>"

definition fromTimeout :: "RequestConfig \<Rightarrow> HttpError" where
  "fromTimeout cfg =
     \<lparr>HttpError.message = ''Request timeout'',
      HttpError.config = Some cfg, HttpError.request = None, HttpError.response = None,
      HttpError.code = Some ''TIMEOUT'', HttpError.status = None\<rparr>"

definition plainHttpError :: "string \<Rightarrow> RequestConfig \<Rightarrow> HttpError" where
  "plainHttpError m cfg =
     \<lparr>HttpError.message = m, HttpError.config = Some cfg, HttpError.request = None, HttpError.response = None,
      HttpError.code = None, HttpError.status = None\<rparr>"

text \<open>
  What the client's code can catch: an \<open>HttpError\<close>, another \<open>Error\<close> (its \<open>name\<close> and
  \<open>message\<close>), or a value that is no \<open>Error\<close>.
\<close>

datatype thrown = HttpErr HttpError | OtherError string string | NonError

subsection \<open>The platform\<close>

text \<open>
  What \<open>fetch\<close> resolves to, with the results the body readers \<open>json()\<close>, \<open>text()\<close> and
  \<open>blob()\<close> would give (\<open>bodyText\<close> for \<open>text()\<close>; \<open>json()\<close> raises a \<open>SyntaxError\<close> with a message on a malformed
  body). Header names are in lower case, as \<open>Headers\<close> keeps them.
\<close>

record FetchResponse =
  status :: int
  statusText :: string
  headers :: "(string \<times> string) list"
  json :: "string + jsValue"
  bodyText :: string
  blob :: string

datatype fetchOutcome = Responds FetchResponse | FetchError string string | FetchNonError

text \<open>
  The services the client takes from the platform, as parameters: \<open>fetch\<close> (its answer
  may depend on how many calls came before), \<open>JSON.stringify\<close>, and the \<open>URL\<close> class,
  which parses a URL and appends the given query parameters, raising a \<open>TypeError\<close>
  with a message or giving the URL's \<open>toString()\<close>, \<open>pathname\<close> and \<open>search\<close>.
\<close>

record platform =
  fetch :: "nat \<Rightarrow> Request \<Rightarrow> fetchOutcome"
  stringify :: "jsValue \<Rightarrow> string"
  parseUrl :: "string \<Rightarrow> (string \<times> string) list \<Rightarrow> string + (string \<times> string \<times> string)"
  toText :: "jsValue \<Rightarrow> string"

subsection \<open>The adapter and its interceptors\<close>

record HttpAdapter =
  requestInterceptors :: "(RequestConfig \<Rightarrow> thrown + RequestConfig) list"
  responseInterceptors :: "(HttpResponse \<Rightarrow> thrown + HttpResponse) list"
  errorInterceptors :: "(thrown \<Rightarrow> thrown + HttpResponse) list"
  defaultConfig :: AdapterConfig

definition defaultValidateStatus :: "int \<Rightarrow> bool" where
  "defaultValidateStatus s \<longleftrightarrow> s \<ge> 200 \<and> s < 300"

text \<open>The constructor: \<open>new HttpAdapter(config)\<close>.\<close>

definition newHttpAdapter :: "AdapterConfig \<Rightarrow> HttpAdapter" where
  "newHttpAdapter cfg =
     \<lparr>requestInterceptors = [], responseInterceptors = [], errorInterceptors = [],
      defaultConfig =
        \<lparr>AdapterConfig.baseURL = AdapterConfig.baseURL cfg,
         AdapterConfig.timeout = spread (Val 10000) (AdapterConfig.timeout cfg),
         AdapterConfig.headers =
           spread (Val [''Content-Type'' \<mapsto> ''application/json''])
             (AdapterConfig.headers cfg),
         AdapterConfig.retries = spread (Val 3) (AdapterConfig.retries cfg),
         AdapterConfig.validateStatus =
           spread (Val defaultValidateStatus) (AdapterConfig.validateStatus cfg),
         AdapterConfig.transformRequest = AdapterConfig.transformRequest cfg,
         AdapterConfig.transformResponse = AdapterConfig.transformResponse cfg\<rparr>\<rparr>"

definition addRequestInterceptor ::
  "(RequestConfig \<Rightarrow> thrown + RequestConfig) \<Rightarrow> HttpAdapter \<Rightarrow> HttpAdapter" where
  "addRequestInterceptor interceptor A =
     A\<lparr>requestInterceptors := requestInterceptors A @ [interceptor]\<rparr>"

definition addResponseInterceptor ::
  "(HttpResponse \<Rightarrow> thrown + HttpResponse) \<Rightarrow> HttpAdapter \<Rightarrow> HttpAdapter" where
  "addResponseInterceptor interceptor A =
     A\<lparr>responseInterceptors := responseInterceptors A @ [interceptor]\<rparr>"

definition addErrorInterceptor ::
  "(thrown \<Rightarrow> thrown + HttpResponse) \<Rightarrow> HttpAdapter \<Rightarrow> HttpAdapter" where
  "addErrorInterceptor interceptor A =
     A\<lparr>errorInterceptors := errorInterceptors A @ [interceptor]\<rparr>"

text \<open>
  What a request does that can be observed from outside, in order: the call of an
  interceptor (by its index in its chain), the call of \<open>fetch\<close> with a \<open>Request\<close>, and
  the sleep before a retry, in milliseconds.
\<close>

datatype httpEvent =
    RequestIntercepted nat
  | Fetched Request
  | ResponseIntercepted nat
  | ErrorIntercepted nat
  | Slept rat

text \<open>The number of calls of \<open>fetch\<close> among the events.\<close>

fun fetchCalls :: "httpEvent list \<Rightarrow> nat" where
  "fetchCalls [] = 0"
| "fetchCalls (Fetched r # es) = Suc (fetchCalls es)"
| "fetchCalls (e # es) = fetchCalls es"

subsection \<open>URL and configuration\<close>

fun startsWith :: "string \<Rightarrow> string \<Rightarrow> bool" where
  "startsWith s [] = True"
| "startsWith [] (p # ps) = False"
| "startsWith (c # cs) (p # ps) = (c = p \<and> startsWith cs ps)"

definition endsWith :: "string \<Rightarrow> string \<Rightarrow> bool" where
  "endsWith s suffix = startsWith (rev s) (rev suffix)"

fun stringIncludes :: "string \<Rightarrow> string \<Rightarrow> bool" where
  "stringIncludes [] sub = (sub = [])"
| "stringIncludes (c # cs) sub = (startsWith (c # cs) sub \<or> stringIncludes cs sub)"

definition buildUrl :: "string \<Rightarrow> string option \<Rightarrow> string" where
  "buildUrl u baseUrl =
     (if startsWith u ''http://'' \<or> startsWith u ''https://'' then u
      else (case nonEmpty baseUrl of
              None \<Rightarrow> u
            | Some b \<Rightarrow>
                (let base = (if endsWith b ''/'' then butlast b else b);
                     path = (if startsWith u ''/'' then u else ''/'' @ u)
                 in base @ path)))"

definition mergeConfig :: "HttpAdapter \<Rightarrow> RequestConfig \<Rightarrow> RequestConfig" where
  "mergeConfig A cfg =
     (let u = buildUrl
                  (case nonEmpty (valueOf (RequestConfig.url cfg)) of
                     None \<Rightarrow> [] | Some u \<Rightarrow> u)
                  (case nonEmpty (valueOf (RequestConfig.baseURL cfg)) of
                     None \<Rightarrow> valueOf (AdapterConfig.baseURL (defaultConfig A))
                   | Some b \<Rightarrow> Some b)
      in \<lparr>RequestConfig.method' = RequestConfig.method' cfg,
          RequestConfig.url = Val u,
          RequestConfig.baseURL = spread (AdapterConfig.baseURL (defaultConfig A))
                      (RequestConfig.baseURL cfg),
          RequestConfig.headers =
            Val ((case valueOf (AdapterConfig.headers (defaultConfig A)) of
                    None \<Rightarrow> Map.empty | Some h \<Rightarrow> h)
                 ++ (case valueOf (RequestConfig.headers cfg) of
                       None \<Rightarrow> Map.empty | Some h \<Rightarrow> h)),
          RequestConfig.params = RequestConfig.params cfg,
          RequestConfig.data = RequestConfig.data cfg,
          RequestConfig.timeout = spread (AdapterConfig.timeout (defaultConfig A))
                      (RequestConfig.timeout cfg),
          RequestConfig.retries = spread (AdapterConfig.retries (defaultConfig A))
                      (RequestConfig.retries cfg),
          RequestConfig.validateStatus = spread (AdapterConfig.validateStatus (defaultConfig A))
                             (RequestConfig.validateStatus cfg),
          RequestConfig.transformRequest = spread (AdapterConfig.transformRequest (defaultConfig A))
                               (RequestConfig.transformRequest cfg),
          RequestConfig.transformResponse = spread (AdapterConfig.transformResponse (defaultConfig A))
                                (RequestConfig.transformResponse cfg),
          RequestConfig.signal = RequestConfig.signal cfg\<rparr>)"

definition addQueryParams ::
  "platform \<Rightarrow> string \<Rightarrow> (string \<times> jsValue) list option \<Rightarrow> thrown + string" where
  "addQueryParams P u ps =
     (case ps of
        None \<Rightarrow> Inr u
      | Some qs \<Rightarrow>
          if length qs = 0 then Inr u
          else (case parseUrl P u
                       (map (\<lambda>(key, value). (key, toText P value))
                          (filter (\<lambda>(key, value). value \<noteq> JsUndefined \<and> value \<noteq> JsNull) qs)) of
                  Inl m \<Rightarrow> Inl (OtherError ''TypeError'' m)
                | Inr (href, pathname, search) \<Rightarrow>
                    Inr (if stringIncludes u ''://'' then href else pathname @ search)))"

subsection \<open>The request pipeline\<close>

text \<open>
  Each stage takes the events so far and gives the events after it, with what it
  returns (\<open>Inr\<close>) or raises (\<open>Inl\<close>). An interceptor or a transformer is a function of
  its argument.
\<close>

type_synonym 'a outcome = "httpEvent list \<times> (thrown + 'a)"

fun applyRequestInterceptorsFrom ::
  "(RequestConfig \<Rightarrow> thrown + RequestConfig) list \<Rightarrow> nat \<Rightarrow> RequestConfig \<Rightarrow> httpEvent list
     \<Rightarrow> RequestConfig outcome" where
  "applyRequestInterceptorsFrom [] i finalConfig trace = (trace, Inr finalConfig)"
| "applyRequestInterceptorsFrom (interceptor # rest) i finalConfig trace =
     (case interceptor finalConfig of
        Inl e \<Rightarrow> (trace @ [RequestIntercepted i], Inl e)
      | Inr c \<Rightarrow> applyRequestInterceptorsFrom rest (Suc i) c (trace @ [RequestIntercepted i]))"

definition applyRequestInterceptors ::
  "HttpAdapter \<Rightarrow> RequestConfig \<Rightarrow> httpEvent list \<Rightarrow> RequestConfig outcome" where
  "applyRequestInterceptors A cfg trace =
     applyRequestInterceptorsFrom (requestInterceptors A) 0 cfg trace"

fun applyResponseInterceptorsFrom ::
  "(HttpResponse \<Rightarrow> thrown + HttpResponse) list \<Rightarrow> nat \<Rightarrow> HttpResponse \<Rightarrow> httpEvent list
     \<Rightarrow> HttpResponse outcome" where
  "applyResponseInterceptorsFrom [] i finalResponse trace = (trace, Inr finalResponse)"
| "applyResponseInterceptorsFrom (interceptor # rest) i finalResponse trace =
     (case interceptor finalResponse of
        Inl e \<Rightarrow> (trace @ [ResponseIntercepted i], Inl e)
      | Inr r \<Rightarrow> applyResponseInterceptorsFrom rest (Suc i) r (trace @ [ResponseIntercepted i]))"

definition applyResponseInterceptors ::
  "HttpAdapter \<Rightarrow> HttpResponse \<Rightarrow> httpEvent list \<Rightarrow> HttpResponse outcome" where
  "applyResponseInterceptors A resp trace =
     applyResponseInterceptorsFrom (responseInterceptors A) 0 resp trace"

text \<open>The destructured \<open>method = 'GET'\<close> of \<open>makeRequest\<close>.\<close>

definition methodOf :: "RequestConfig \<Rightarrow> HttpMethod" where
  "methodOf cfg = (case valueOf (RequestConfig.method' cfg) of None \<Rightarrow> GET | Some m \<Rightarrow> m)"

text \<open>The variable \<open>body\<close> of \<open>makeRequest\<close>.\<close>

definition requestBody :: "platform \<Rightarrow> RequestConfig \<Rightarrow> body option" where
  "requestBody P cfg =
     (let d = (case valueOf (RequestConfig.data cfg) of None \<Rightarrow> JsUndefined | Some v \<Rightarrow> v);
          transformedData =
            (case valueOf (RequestConfig.transformRequest cfg) of
               None \<Rightarrow> d | Some transform \<Rightarrow> transform d)
      in if jsTruthy transformedData \<and> methodOf cfg \<noteq> GET \<and> methodOf cfg \<noteq> HEAD
         then Some (case transformedData of
                      JsFormData f \<Rightarrow> FormDataBody f
                    | v \<Rightarrow> TextBody (stringify P v))
         else None)"

text \<open>The body of the response, read by its declared content type.\<close>

definition parseBody :: "FetchResponse \<Rightarrow> thrown + jsValue" where
  "parseBody r =
     (let contentType = map_of (FetchResponse.headers r) ''content-type'' in
      if (case contentType of None \<Rightarrow> False | Some c \<Rightarrow> stringIncludes c ''application/json'')
      then (case json r of Inl m \<Rightarrow> Inl (OtherError ''SyntaxError'' m) | Inr v \<Rightarrow> Inr v)
      else if (case contentType of None \<Rightarrow> False | Some c \<Rightarrow> stringIncludes c ''text/'')
      then Inr (JsString (bodyText r))
      else Inr (JsBlob (blob r)))"

text \<open>The \<open>try\<close> block of \<open>makeRequest\<close> once \<open>fetch\<close> has resolved.\<close>

definition receive ::
  "HttpAdapter \<Rightarrow> RequestConfig \<Rightarrow> Request \<Rightarrow> FetchResponse \<Rightarrow> thrown + HttpResponse" where
  "receive A cfg req r =
     (case parseBody r of
        Inl e \<Rightarrow> Inl e
      | Inr responseData \<Rightarrow>
          (let transformedResponse =
                 (case valueOf (RequestConfig.transformResponse cfg) of
                    None \<Rightarrow> responseData | Some transform \<Rightarrow> transform responseData);
               resp = \<lparr>HttpResponse.data = transformedResponse,
                       HttpResponse.status = FetchResponse.status r,
                       HttpResponse.statusText = FetchResponse.statusText r,
                       HttpResponse.headers = map_of (FetchResponse.headers r),
                       HttpResponse.config = cfg,
                       HttpResponse.request = Some req\<rparr>
           in (case (case valueOf (RequestConfig.validateStatus cfg) of
                       Some v \<Rightarrow> Some v
                     | None \<Rightarrow> valueOf (AdapterConfig.validateStatus (defaultConfig A))) of
                 None \<Rightarrow> Inl (OtherError ''TypeError'' ''validateStatus is not a function'')
               | Some validate \<Rightarrow>
                   if \<not> validate (HttpResponse.status resp)
                   then Inl (HttpErr (fromResponse resp cfg))
                   else Inr resp)))"

text \<open>The \<open>catch\<close> clause of \<open>makeRequest\<close>.\<close>

definition classify :: "thrown \<Rightarrow> RequestConfig \<Rightarrow> thrown" where
  "classify e cfg =
     (case e of
        HttpErr h \<Rightarrow> HttpErr h
      | OtherError name m \<Rightarrow>
          if name = ''AbortError'' then HttpErr (fromTimeout cfg)
          else HttpErr (fromNetworkError m cfg)
      | NonError \<Rightarrow> HttpErr (plainHttpError ''Unknown error occurred'' cfg))"

text \<open>The \<open>Request\<close> that \<open>makeRequest\<close> builds for a final URL.\<close>

definition newRequest :: "platform \<Rightarrow> RequestConfig \<Rightarrow> string \<Rightarrow> Request" where
  "newRequest P cfg finalUrl =
     \<lparr>Request.url = finalUrl,
      Request.method' = methodOf cfg,
      Request.headers = valueOf (RequestConfig.headers cfg),
      Request.body = requestBody P cfg,
      Request.signal = (case valueOf (RequestConfig.signal cfg) of
                          Some s \<Rightarrow> CallerSignal | None \<Rightarrow> ControllerSignal)\<rparr>"

definition makeRequest ::
  "HttpAdapter \<Rightarrow> platform \<Rightarrow> RequestConfig \<Rightarrow> httpEvent list \<Rightarrow> HttpResponse outcome" where
  "makeRequest A P cfg trace =
     (case nonEmpty (valueOf (RequestConfig.url cfg)) of
        None \<Rightarrow> (trace, Inl (HttpErr (plainHttpError ''URL is required'' cfg)))
      | Some u \<Rightarrow>
          (case addQueryParams P u (valueOf (RequestConfig.params cfg)) of
             Inl e \<Rightarrow> (trace, Inl e)
           | Inr finalUrl \<Rightarrow>
               (trace @ [Fetched (newRequest P cfg finalUrl)],
                (case fetch P (fetchCalls trace) (newRequest P cfg finalUrl) of
                   Responds r \<Rightarrow>
                     (case receive A cfg (newRequest P cfg finalUrl) r of
                        Inl e \<Rightarrow> Inl (classify e cfg)
                      | Inr resp \<Rightarrow> Inr resp)
                 | FetchError name m \<Rightarrow> Inl (classify (OtherError name m) cfg)
                 | FetchNonError \<Rightarrow> Inl (classify NonError cfg)))))"

text \<open>The \<open>try\<close> block of \<open>request\<close>.\<close>

definition tryRequest ::
  "HttpAdapter \<Rightarrow> platform \<Rightarrow> RequestConfig \<Rightarrow> httpEvent list \<Rightarrow> HttpResponse outcome" where
  "tryRequest A P cfg trace =
     (case applyRequestInterceptors A (mergeConfig A cfg) trace of
        (trace1, Inl e) \<Rightarrow> (trace1, Inl e)
      | (trace1, Inr finalConfig) \<Rightarrow>
          (case makeRequest A P finalConfig trace1 of
             (trace2, Inl e) \<Rightarrow> (trace2, Inl e)
           | (trace2, Inr resp) \<Rightarrow> applyResponseInterceptors A resp trace2))"

text \<open>The \<open>for\<close> loop of \<open>handleError\<close>, from the interceptor of index \<open>i\<close> on.\<close>

fun offerToErrorInterceptors ::
  "(thrown \<Rightarrow> thrown + HttpResponse) list \<Rightarrow> nat \<Rightarrow> thrown \<Rightarrow> httpEvent list
     \<Rightarrow> HttpResponse outcome" where
  "offerToErrorInterceptors [] i currentError trace = (trace, Inl currentError)"
| "offerToErrorInterceptors (interceptor # rest) i currentError trace =
     (case interceptor currentError of
        Inr resp \<Rightarrow> (trace @ [ErrorIntercepted i], Inr resp)
      | Inl interceptorError \<Rightarrow>
          offerToErrorInterceptors rest (Suc i) interceptorError (trace @ [ErrorIntercepted i]))"

text \<open>
  The test \<open>currentError.config?.retries && currentError.config.retries > 0\<close>: the
  configuration carried by the error and its budget, when the test passes.
\<close>

definition retryBudget :: "thrown \<Rightarrow> (RequestConfig \<times> int) option" where
  "retryBudget e =
     (case e of
        HttpErr h \<Rightarrow>
          (case HttpError.config h of
             None \<Rightarrow> None
           | Some cfg \<Rightarrow>
               (case valueOf (RequestConfig.retries cfg) of
                  None \<Rightarrow> None
                | Some r \<Rightarrow> if r \<noteq> 0 \<and> r > 0 then Some (cfg, r) else None))
      | _ \<Rightarrow> None)"

text \<open>The delay before a retry, from \<open>retryConfig.retries\<close>.\<close>

definition retryDelay :: "HttpAdapter \<Rightarrow> int \<Rightarrow> rat" where
  "retryDelay A retriesLeft =
     2 powi (orDefault (valueOf (AdapterConfig.retries (defaultConfig A))) 3 - retriesLeft)
       * 1000"

text \<open>
  \<open>handleError\<close>, with the method \<open>request\<close> it calls for a retry as the parameter
  \<open>resubmit\<close>.
\<close>

definition handleError ::
  "(RequestConfig \<Rightarrow> httpEvent list \<Rightarrow> HttpResponse outcome option) \<Rightarrow> HttpAdapter \<Rightarrow> thrown
     \<Rightarrow> httpEvent list \<Rightarrow> HttpResponse outcome option" where
  "handleError resubmit A err trace =
     (case offerToErrorInterceptors (errorInterceptors A) 0 err trace of
        (trace1, Inr resp) \<Rightarrow> Some (trace1, Inr resp)
      | (trace1, Inl currentError) \<Rightarrow>
          (case retryBudget currentError of
             Some (cfg, r) \<Rightarrow>
               (let retryConfig = cfg\<lparr>RequestConfig.retries := Val (r - 1)\<rparr>;
                    delay = retryDelay A (r - 1)
                in resubmit retryConfig (trace1 @ [Slept delay]))
           | None \<Rightarrow> Some (trace1, Inl currentError)))"

text \<open>
  \<open>request\<close>. It calls itself through \<open>handleError\<close>, and an interceptor may restore the
  budget, so the first argument bounds the number of submissions: the result is \<open>None\<close>
  when that many submissions did not settle the request.
\<close>

primrec request ::
  "nat \<Rightarrow> HttpAdapter \<Rightarrow> platform \<Rightarrow> RequestConfig \<Rightarrow> httpEvent list
     \<Rightarrow> HttpResponse outcome option" where
  "request 0 A P = (\<lambda>cfg trace. None)"
| "request (Suc n) A P =
     (\<lambda>cfg trace.
        (case tryRequest A P cfg trace of
           (trace1, Inr resp) \<Rightarrow> Some (trace1, Inr resp)
         | (trace1, Inl e) \<Rightarrow> handleError (request n A P) A e trace1))"

text \<open>The sleeps among the events of a run, in order.\<close>

fun sleeps :: "httpEvent list \<Rightarrow> rat list" where
  "sleeps [] = []"
| "sleeps (Slept d # es) = d # sleeps es"
| "sleeps (e # es) = sleeps es"

section \<open>Properties of the retry loops\<close>




lemma perform_failed_prefix:
  assumes "\<And>j. j \<le> k \<Longrightarrow> awaitAttempt cfg inp (exec j) = Some (Inl (c j))"
    and "int k < orDefault (AsyncAdapterConfig.retries cfg) 1 - 1"
    and "k0 \<le> k"
  shows "performExecuteWithRetryFrom cfg exec inp k0 le
         = (concat (map (failedAttempt cfg) [k0..<Suc k])
              @ fst (performExecuteWithRetryFrom cfg exec inp (Suc k) (Some (c k))),
            snd (performExecuteWithRetryFrom cfg exec inp (Suc k) (Some (c k))))"
  using assms(3)
proof (induction "k - k0" arbitrary: k0 le)
  case 0
  then have "k0 = k" by simp
  with assms(1)[of k] assms(2) show ?case
    by (subst performExecuteWithRetryFrom.simps)
       (simp add: failedAttempt_def case_prod_beta)
next
  case (Suc d)
  then have lt: "Suc k0 \<le> k" and d: "d = k - Suc k0" by simp_all
  have "[k0..<Suc k] = k0 # [Suc k0..<Suc k]"
    using Suc.prems by (simp add: upt_rec)
  with assms(1)[of k0] assms(2) Suc.prems Suc.hyps(1)[OF d lt, of "Some (c k0)"] show ?case
    by (subst performExecuteWithRetryFrom.simps)
       (simp add: failedAttempt_def case_prod_beta)
qed


lemma calculateBackoffDelay_kind:
  "backoff cfg = Some kind \<Longrightarrow>
   calculateBackoffDelay cfg j
     = (case kind of exponential \<Rightarrow> 1000 * 2 ^ j | linear \<Rightarrow> 1000 * (int j + 1))"
  by (cases kind) (simp_all add: calculateBackoffDelay_def)



text \<open>
  Claim C8. In a run of the asynchronous adapter every failed attempt \<open>j\<close> up to a
  failed attempt \<open>k\<close> that is not the final one is followed by a sleep of
  \<open>1000 * 2 ^ j\<close> milliseconds under exponential back-off and of \<open>1000 * (j + 1)\<close>
  under linear back-off, and then by the next attempt.
\<close>

theorem backoff_delay_between_attempts:
  assumes "backoff cfg = Some kind"
    and "\<And>j. j \<le> k \<Longrightarrow> awaitAttempt cfg inp (exec j) = Some (Inl (cause j))"
    and "int k < orDefault (AsyncAdapterConfig.retries cfg) 1 - 1"
  shows "\<exists>rest. fst (performExecuteWithRetry cfg exec inp)
           = concat (map (\<lambda>j. [Increment, Execute j,
                                 Sleep (case kind of exponential \<Rightarrow> 1000 * 2 ^ j
                                        | linear \<Rightarrow> 1000 * (int j + 1)),
                                 Decrement]) [0..<Suc k])
             @ Increment # Execute (Suc k) # rest"
proof -
  have lt: "int (Suc k) < orDefault (AsyncAdapterConfig.retries cfg) 1"
    using assms(3) by simp
  have "\<exists>rest. fst (performExecuteWithRetryFrom cfg exec inp (Suc k) (Some (cause k)))
          = Increment # Execute (Suc k) # rest"
    using lt by (subst performExecuteWithRetryFrom.simps)
      (simp add: case_prod_beta split: option.splits sum.splits)
  then obtain rest where
    r: "fst (performExecuteWithRetryFrom cfg exec inp (Suc k) (Some (cause k)))
          = Increment # Execute (Suc k) # rest" ..
  have "failedAttempt cfg = (\<lambda>j. [Increment, Execute j,
                                 Sleep (case kind of exponential \<Rightarrow> 1000 * 2 ^ j
                                        | linear \<Rightarrow> 1000 * (int j + 1)),
                                 Decrement])"
    by (rule ext) (simp add: failedAttempt_def calculateBackoffDelay_kind[OF assms(1)])
  with perform_failed_prefix[of k cfg inp exec cause 0 None, OF assms(2,3)] r
  show ?thesis
    by (simp add: performExecuteWithRetry_def)
qed

theorem backoff_delay_between_attempts_witness:
  "\<exists>rest. fst (performExecuteWithRetry
        \<lparr>AsyncAdapterConfig.timeout = Some 10000, AsyncAdapterConfig.retries = Some 3, concurrency = Some 5, queueSize = Some 100,
         backoff = Some linear, priority = Some 1\<rparr>
        (\<lambda>k. Rejects (Failure ''boom'') :: (string, nat) settle) ''in'')
     = [Increment, Execute 0, Sleep 1000, Decrement,
        Increment, Execute 1, Sleep 2000, Decrement, Increment, Execute 2] @ rest"
  using backoff_delay_between_attempts
    [of "\<lparr>AsyncAdapterConfig.timeout = Some 10000, AsyncAdapterConfig.retries = Some 3, concurrency = Some 5, queueSize = Some 100,
          backoff = Some linear, priority = Some 1\<rparr>"
        linear 1 "''in''" "\<lambda>k. Rejects (Failure ''boom'') :: (string, nat) settle" "\<lambda>k. Failure ''boom''"]
  by (simp add: awaitAttempt_def orDefault_def upt_rec numeral_2_eq_2)

subsection \<open>Further facts about one run\<close>

text \<open>
  Over a run that returns, the increments and decrements of the counter cancel; a run
  that never returns (an attempt without a timer whose promise never settles) holds one.
\<close>

lemma netChange_append: "netChange (xs @ ys) = netChange xs + netChange ys"
  by (induction xs rule: netChange.induct) auto

lemma performExecuteWithRetryFrom_netChange:
  "netChange (fst (performExecuteWithRetryFrom cfg exec inp k le))
     = (if snd (performExecuteWithRetryFrom cfg exec inp k le) = None then 1 else 0)"
proof (induction cfg exec inp k le rule: performExecuteWithRetryFrom.induct)
  case (1 cfg exec inp attempt lastError)
  show ?case
  proof (cases "int attempt < orDefault (AsyncAdapterConfig.retries cfg) 1")
    case False
    then show ?thesis
      by (subst (1 2) performExecuteWithRetryFrom.simps) simp
  next
    case True
    show ?thesis
    proof (cases "awaitAttempt cfg inp (exec attempt)")
      case None
      with True show ?thesis
        by (subst (1 2) performExecuteWithRetryFrom.simps) simp
    next
      case (Some outcome)
      show ?thesis
      proof (cases outcome)
        case (Inr result)
        with True Some show ?thesis
          by (subst (1 2) performExecuteWithRetryFrom.simps) simp
      next
        case (Inl e)
        with True Some "1.IH"[OF True Some Inl] show ?thesis
          by (subst (1 2) performExecuteWithRetryFrom.simps)
             (simp add: case_prod_beta netChange_append)
      qed
    qed
  qed
qed

text \<open>
  A negative budget is outside claim C2: the loop body never runs, and what is raised
  is \<open>undefined\<close> (synchronous adapter) or a \<open>TypeError\<close> (asynchronous adapter).
\<close>

lemma negative_budget_runs_no_attempt:
  assumes "n < 0"
  shows "SyncAdapterConfig.retries scfg = Some n
           \<Longrightarrow> executeWithRetry scfg sexec inp = ([], Inl UndefinedThrown)"
    and "AsyncAdapterConfig.retries acfg = Some n
           \<Longrightarrow> performExecuteWithRetry acfg aexec inp
               = ([], Some (Inl (TypeError ''undefined is not an object'')))"
  using assms
  by (simp_all add: executeWithRetry_def executeWithRetryFrom.simps
        performExecuteWithRetry_def performExecuteWithRetryFrom.simps orDefault_def
        asyncExhausted_def)

section \<open>Properties of the queue and of the concurrency counter\<close>

subsection \<open>The counter stays below the limit\<close>

lemma active_setPhase [simp]: "activeExecutions (setPhase t p s) = activeExecutions s"
  by (simp add: setPhase_def)

lemma queue_setPhase [simp]: "executionQueue (setPhase t p s) = executionQueue s"
  by (simp add: setPhase_def)

lemma queue_enterAttempt [simp]:
  "executionQueue (enterAttempt cfg t k le s) = executionQueue s"
  by (simp add: enterAttempt_def)








subsection \<open>The counter counts the attempts in flight\<close>



lemma inFlight_active_update [simp]:
  "inFlight (s\<lparr>activeExecutions := a\<rparr>) = inFlight s"
  by (simp add: inFlight_def)

lemma queueOk_active_update [simp]:
  "queueOk (s\<lparr>activeExecutions := a\<rparr>) = queueOk s"
  by (simp add: queueOk_def)













subsection \<open>The queue stays below its capacity\<close>





subsection \<open>The turns of one operation follow the retry loop\<close>

text \<open>
  An operation that is left to run from its attempt \<open>k\<close> ends settled with the result of
  \<open>performExecuteWithRetry\<close>'s loop from \<open>k\<close> and has given its slot back, or hangs in an
  attempt, holding it, where the loop does not return.
\<close>

lemma operations_setPhase:
  "t < length (operations s) \<Longrightarrow>
   operations (setPhase t p s) ! t = (fst (operations s ! t), p)
   \<and> length (operations (setPhase t p s)) = length (operations s)"
  by (simp add: setPhase_def)

lemma run_turnsFrom:
  assumes "t < length (operations s)"
    and "operations s ! t = (inp, Attempting k)"
    and "int k < orDefault (AsyncAdapterConfig.retries cfg) 1"
  shows "(case snd (performExecuteWithRetryFrom cfg exec inp k le) of
            None \<Rightarrow>
              (\<exists>k'. snd (operations (run cfg (turnsFrom cfg exec inp t k) s) ! t) = Attempting k')
              \<and> activeExecutions (run cfg (turnsFrom cfg exec inp t k) s) = activeExecutions s
          | Some r \<Rightarrow>
              snd (operations (run cfg (turnsFrom cfg exec inp t k) s) ! t) = Settled r
              \<and> activeExecutions (run cfg (turnsFrom cfg exec inp t k) s)
                  = activeExecutions s - 1)"
  using assms
proof (induction "nat (orDefault (AsyncAdapterConfig.retries cfg) 1) - k" arbitrary: k s le)
  case 0
  then show ?case by simp
next
  case (Suc d)
  let ?M = "orDefault (AsyncAdapterConfig.retries cfg) 1"
  have st: "step cfg (Settles t (exec k)) s = attemptSettles cfg t k (exec k) s"
    using Suc.prems by simp
  have inp: "fst (operations s ! t) = inp"
    using Suc.prems by simp
  show ?case
  proof (cases "awaitAttempt cfg inp (exec k)")
    case None
    with Suc.prems st inp show ?thesis
      by (subst performExecuteWithRetryFrom.simps, subst (1 2) turnsFrom.simps)
         (simp add: attemptSettles_def)
  next
    case (Some outcome)
    show ?thesis
    proof (cases outcome)
      case (Inr result)
      with Some Suc.prems st inp show ?thesis
        by (subst performExecuteWithRetryFrom.simps, subst (1 2) turnsFrom.simps)
           (simp add: attemptSettles_def operations_setPhase)
    next
      case (Inl e)
      show ?thesis
      proof (cases "int k < ?M - 1")
        case False
        then have last: "\<not> int (Suc k) < ?M" by simp
        have seq: "snd (performExecuteWithRetryFrom cfg exec inp k le)
                     = Some (Inl (asyncExhausted ?M (Some e) inp))"
          using Suc.prems(3) Some Inl last
          by (subst performExecuteWithRetryFrom.simps,
              subst performExecuteWithRetryFrom.simps) (simp add: case_prod_beta)
        have turns: "turnsFrom cfg exec inp t k = [Settles t (exec k)]"
          using Suc.prems(3) Some Inl False by (subst turnsFrom.simps) simp
        show ?thesis
          using Suc.prems Some Inl False last inp st
          unfolding seq turns
          by (simp add: attemptSettles_def enterAttempt_def operations_setPhase)
      next
        case True
        then have lt: "int (Suc k) < ?M" by simp
        let ?s1 = "attemptSettles cfg t k (exec k) s"
        let ?s2 = "step cfg (TimerElapsed t) ?s1"
        have s1: "?s1 = setPhase t (BackingOff k e) s"
          using Some Inl True inp by (simp add: attemptSettles_def)
        have s2: "?s2 = setPhase t (Attempting (Suc k)) ?s1"
          using s1 lt Suc.prems(1) inp
          by (simp add: operations_setPhase backoffElapsed_def enterAttempt_def setPhase_def)
        have 1: "t < length (operations ?s2)"
          using Suc.prems(1) s1 s2 by (simp add: setPhase_def)
        have 2: "operations ?s2 ! t = (inp, Attempting (Suc k))"
          using Suc.prems(1) inp s1 s2 by (simp add: setPhase_def)
        have d: "d = nat ?M - Suc k" using Suc.hyps(2) by simp
        have a: "activeExecutions ?s2 = activeExecutions s"
          using s1 s2 by simp
        have seq: "snd (performExecuteWithRetryFrom cfg exec inp k le)
                     = snd (performExecuteWithRetryFrom cfg exec inp (Suc k) (Some e))"
          using Suc.prems(3) Some Inl
          by (subst performExecuteWithRetryFrom.simps) (simp add: case_prod_beta)
        have turns: "turnsFrom cfg exec inp t k
                       = Settles t (exec k) # TimerElapsed t # turnsFrom cfg exec inp t (Suc k)"
          using Suc.prems(3) Some Inl True by (subst turnsFrom.simps) simp
        have r: "run cfg (turnsFrom cfg exec inp t k) s
                   = run cfg (turnsFrom cfg exec inp t (Suc k)) ?s2"
          unfolding turns using st by simp
        show ?thesis
          unfolding seq r a[symmetric] by (rule Suc.hyps(1)[OF d 1 2 lt])
      qed
    qed
  qed
qed

subsection \<open>Claims C1 and C3\<close>







section \<open>Properties of the adapter manager\<close>










section \<open>Properties of the HTTP client\<close>

subsection \<open>URL resolution\<close>

lemma startsWith_append: "startsWith (p @ s) p"
  by (induction p) simp_all

lemma startsWith_Cons_slash: "startsWith (CHR ''/'' # p) ''/''"
  by simp

lemma not_startsWith_slash_http:
  "\<not> startsWith (CHR ''/'' # p) ''http://''" "\<not> startsWith (CHR ''/'' # p) ''https://''"
  by simp_all






lemma mergeConfig_url:
  "RequestConfig.url (mergeConfig A cfg)
     = Val (buildUrl
              (case nonEmpty (valueOf (RequestConfig.url cfg)) of None \<Rightarrow> [] | Some u \<Rightarrow> u)
              (case nonEmpty (valueOf (RequestConfig.baseURL cfg)) of
                 None \<Rightarrow> valueOf (AdapterConfig.baseURL (defaultConfig A))
               | Some b \<Rightarrow> Some b))"
  by (simp add: mergeConfig_def Let_def)

subsection \<open>The transport request\<close>

text \<open>
  Claim C9. When the method of the final configuration is \<open>GET\<close> or \<open>HEAD\<close> (\<open>GET\<close>
  also when none is given), \<open>makeRequest\<close> computes no body whatever the payload and
  its transformer are, and the only \<open>Request\<close> it passes to \<open>fetch\<close> has no body.
\<close>

theorem get_and_head_issue_no_body:
  assumes "methodOf cfg = GET \<or> methodOf cfg = HEAD"
  shows "requestBody P cfg = None
       \<and> (fst (makeRequest A P cfg trace) = trace
          \<or> (\<exists>finalUrl. fst (makeRequest A P cfg trace)
                            = trace @ [Fetched (newRequest P cfg finalUrl)]
                        \<and> Request.body (newRequest P cfg finalUrl) = None
                        \<and> Request.method' (newRequest P cfg finalUrl) = methodOf cfg))"
proof -
  have b: "requestBody P cfg = None"
    using assms by (auto simp: requestBody_def Let_def)
  then have "\<And>finalUrl. Request.body (newRequest P cfg finalUrl) = None"
    "\<And>finalUrl. Request.method' (newRequest P cfg finalUrl) = methodOf cfg"
    by (simp_all add: newRequest_def)
  then have "fst (makeRequest A P cfg trace) = trace
          \<or> (\<exists>finalUrl. fst (makeRequest A P cfg trace)
                            = trace @ [Fetched (newRequest P cfg finalUrl)]
                        \<and> Request.body (newRequest P cfg finalUrl) = None
                        \<and> Request.method' (newRequest P cfg finalUrl) = methodOf cfg)"
    by (auto simp: makeRequest_def split: option.splits sum.splits)
  with b show ?thesis by blast
qed

theorem get_and_head_issue_no_body_witness:
  "fst (makeRequest (newHttpAdapter
          \<lparr>AdapterConfig.baseURL = Absent, AdapterConfig.timeout = Absent,
           AdapterConfig.headers = Val Map.empty, AdapterConfig.retries = Absent,
           AdapterConfig.validateStatus = Absent, AdapterConfig.transformRequest = Absent,
           AdapterConfig.transformResponse = Absent\<rparr>)
        \<lparr>fetch = (\<lambda>k r. FetchNonError), stringify = (\<lambda>v. ''{}''),
         parseUrl = (\<lambda>u ps. Inl ''Invalid URL''), toText = (\<lambda>v. ''v'')\<rparr>
        \<lparr>RequestConfig.method' = Val HEAD, RequestConfig.url = Val ''https://api.x/v1'',
         RequestConfig.baseURL = Absent, RequestConfig.headers = Undefined,
         RequestConfig.params = Absent, RequestConfig.data = Val (JsObject ''{a: 1}''),
         RequestConfig.timeout = Absent, RequestConfig.retries = Absent,
         RequestConfig.validateStatus = Absent,
         RequestConfig.transformRequest = Val (\<lambda>d. JsString ''payload''),
         RequestConfig.transformResponse = Absent, RequestConfig.signal = Absent\<rparr> [])
   = [Fetched \<lparr>Request.url = ''https://api.x/v1'', Request.method' = HEAD,
               Request.headers = None, Request.body = None,
               Request.signal = ControllerSignal\<rparr>]"
  using get_and_head_issue_no_body
    [of "\<lparr>RequestConfig.method' = Val HEAD, RequestConfig.url = Val ''https://api.x/v1'',
         RequestConfig.baseURL = Absent, RequestConfig.headers = Undefined,
         RequestConfig.params = Absent, RequestConfig.data = Val (JsObject ''{a: 1}''),
         RequestConfig.timeout = Absent, RequestConfig.retries = Absent,
         RequestConfig.validateStatus = Absent,
         RequestConfig.transformRequest = Val (\<lambda>d. JsString ''payload''),
         RequestConfig.transformResponse = Absent, RequestConfig.signal = Absent\<rparr>"]
  by (simp add: methodOf_def makeRequest_def nonEmpty_def addQueryParams_def newRequest_def
        requestBody_def)

text \<open>For comparison: the same payload under \<open>POST\<close> is serialised into the body.\<close>

lemma post_request_has_body:
  "requestBody \<lparr>fetch = (\<lambda>k r. FetchNonError), stringify = (\<lambda>v. ''{}''),
         parseUrl = (\<lambda>u ps. Inl ''Invalid URL''), toText = (\<lambda>v. ''v'')\<rparr>
        \<lparr>RequestConfig.method' = Val POST, RequestConfig.url = Val ''https://api.x/v1'',
         RequestConfig.baseURL = Absent, RequestConfig.headers = Undefined,
         RequestConfig.params = Absent, RequestConfig.data = Val (JsObject ''{a: 1}''),
         RequestConfig.timeout = Absent, RequestConfig.retries = Absent,
         RequestConfig.validateStatus = Absent,
         RequestConfig.transformRequest = Absent,
         RequestConfig.transformResponse = Absent, RequestConfig.signal = Absent\<rparr>
   = Some (TextBody ''{}'')"
  by (simp add: requestBody_def methodOf_def)

subsection \<open>Status validation\<close>

lemma defaultValidateStatus_range:
  "defaultValidateStatus s \<longleftrightarrow> s \<in> {200..299}"
  by (auto simp: defaultValidateStatus_def)



subsection \<open>Error interceptors and retries\<close>

lemma offerToErrorInterceptors_all_raise:
  "offerToErrorInterceptors fs i e tr = (tr1, Inl c)
   \<Longrightarrow> tr1 = tr @ map ErrorIntercepted [i..<i + length fs]"
proof (induction fs arbitrary: i e tr)
  case Nil
  then show ?case by simp
next
  case (Cons f fs)
  from Cons.prems obtain e1 where e1: "f e = Inl e1"
    and rest: "offerToErrorInterceptors fs (Suc i) e1 (tr @ [ErrorIntercepted i]) = (tr1, Inl c)"
    by (auto split: sum.splits)
  have a: "[i..<Suc i + length fs] = i # [Suc i..<Suc i + length fs]"
    by (rule upt_conv_Cons) simp
  have b: "i + length (f # fs) = Suc i + length fs"
    by simp
  show ?case
    unfolding b a using Cons.IH[OF rest] by simp
qed

lemma offerToErrorInterceptors_append:
  "offerToErrorInterceptors fs i e tr = (tr1, Inl c)
   \<Longrightarrow> offerToErrorInterceptors (fs @ gs) i e tr
       = offerToErrorInterceptors gs (i + length fs) c tr1"
proof (induction fs arbitrary: i e tr)
  case Nil
  then show ?case by simp
next
  case (Cons f fs)
  then show ?case
    by (auto split: sum.splits)
qed

text \<open>
  Claim C10. When the error interceptors before the first one that returns all raise,
  \<open>handleError\<close> calls exactly these interceptors and the returning one, in
  registration order, and delivers the returned response as it is: no later error
  interceptor and no response interceptor is called, nothing is slept, and the method
  given for the retry is not called (the result is the same for every \<open>resubmit\<close>).
  \<open>request\<close> returns that result when its pipeline raises.
\<close>

theorem first_recovering_error_interceptor_ends_handling:
  assumes "errorInterceptors A = raising @ recovering # remaining"
    and "offerToErrorInterceptors raising 0 err trace = (trace1, Inl current)"
    and "recovering current = Inr substitute"
  shows "handleError resubmit A err trace
           = Some (trace @ map ErrorIntercepted [0..<Suc (length raising)], Inr substitute)
       \<and> (tryRequest A P cfg trace0 = (trace, Inl err)
            \<longrightarrow> request (Suc n) A P cfg trace0
                = Some (trace @ map ErrorIntercepted [0..<Suc (length raising)],
                        Inr substitute))"
proof -
  have t: "trace1 = trace @ map ErrorIntercepted [0..<length raising]"
    using offerToErrorInterceptors_all_raise[OF assms(2)] by simp
  have "offerToErrorInterceptors (errorInterceptors A) 0 err trace
          = offerToErrorInterceptors (recovering # remaining) (length raising) current trace1"
    using offerToErrorInterceptors_append[OF assms(2)] assms(1) by simp
  also have "\<dots> = (trace1 @ [ErrorIntercepted (length raising)], Inr substitute)"
    using assms(3) by simp
  finally have h: "handleError resubmit A err trace
           = Some (trace @ map ErrorIntercepted [0..<Suc (length raising)], Inr substitute)"
    for resubmit
    using t by (simp add: handleError_def)
  then show ?thesis
    by simp
qed

theorem first_recovering_error_interceptor_ends_handling_witness:
  "request 1
     ((newHttpAdapter
         \<lparr>AdapterConfig.baseURL = Absent, AdapterConfig.timeout = Absent,
          AdapterConfig.headers = Undefined, AdapterConfig.retries = Absent,
          AdapterConfig.validateStatus = Absent, AdapterConfig.transformRequest = Absent,
          AdapterConfig.transformResponse = Absent\<rparr>)
        \<lparr>responseInterceptors := [\<lambda>r. Inl NonError],
         errorInterceptors :=
           [\<lambda>e. Inl e,
            \<lambda>e. Inr \<lparr>HttpResponse.data = JsString ''cached'', HttpResponse.status = 200,
                      HttpResponse.statusText = ''OK'', HttpResponse.headers = Map.empty,
                      HttpResponse.config =
                        \<lparr>RequestConfig.method' = Absent, RequestConfig.url = Absent,
                         RequestConfig.baseURL = Absent, RequestConfig.headers = Absent,
                         RequestConfig.params = Absent, RequestConfig.data = Absent,
                         RequestConfig.timeout = Absent, RequestConfig.retries = Absent,
                         RequestConfig.validateStatus = Absent,
                         RequestConfig.transformRequest = Absent,
                         RequestConfig.transformResponse = Absent,
                         RequestConfig.signal = Absent\<rparr>,
                      HttpResponse.request = None\<rparr>,
            \<lambda>e. Inl NonError]\<rparr>)
     \<lparr>fetch = (\<lambda>k q. FetchError ''TypeError'' ''down''), stringify = (\<lambda>v. ''{}''),
      parseUrl = (\<lambda>u ps. Inl ''Invalid URL''), toText = (\<lambda>v. ''v'')\<rparr>
     \<lparr>RequestConfig.method' = Absent, RequestConfig.url = Val ''https://api.x/v1'',
      RequestConfig.baseURL = Absent, RequestConfig.headers = Absent,
      RequestConfig.params = Absent, RequestConfig.data = Absent,
      RequestConfig.timeout = Absent, RequestConfig.retries = Absent,
      RequestConfig.validateStatus = Absent, RequestConfig.transformRequest = Absent,
      RequestConfig.transformResponse = Absent, RequestConfig.signal = Absent\<rparr>
     []
   = Some ([Fetched \<lparr>Request.url = ''https://api.x/v1'', Request.method' = GET,
                     Request.headers = Some Map.empty, Request.body = None,
                     Request.signal = ControllerSignal\<rparr>,
            ErrorIntercepted 0, ErrorIntercepted 1],
           Inr \<lparr>HttpResponse.data = JsString ''cached'', HttpResponse.status = 200,
                 HttpResponse.statusText = ''OK'', HttpResponse.headers = Map.empty,
                 HttpResponse.config =
                   \<lparr>RequestConfig.method' = Absent, RequestConfig.url = Absent,
                    RequestConfig.baseURL = Absent, RequestConfig.headers = Absent,
                    RequestConfig.params = Absent, RequestConfig.data = Absent,
                    RequestConfig.timeout = Absent, RequestConfig.retries = Absent,
                    RequestConfig.validateStatus = Absent,
                    RequestConfig.transformRequest = Absent,
                    RequestConfig.transformResponse = Absent,
                    RequestConfig.signal = Absent\<rparr>,
                 HttpResponse.request = None\<rparr>)"
  (is "request 1 ?A ?P ?cfg [] = Some (?tr, Inr ?R)")
proof -
  let ?req = "\<lparr>Request.url = ''https://api.x/v1'', Request.method' = GET,
                     Request.headers = Some Map.empty, Request.body = None,
                     Request.signal = ControllerSignal\<rparr>"
  obtain err where tried: "tryRequest ?A ?P ?cfg [] = ([Fetched ?req], Inl err)"
    by (simp add: tryRequest_def applyRequestInterceptors_def mergeConfig_def
          newHttpAdapter_def spread_def nonEmpty_def buildUrl_def makeRequest_def
          addQueryParams_def newRequest_def methodOf_def requestBody_def classify_def)
  have 1: "errorInterceptors ?A = [\<lambda>e. Inl e] @ (\<lambda>e. Inr ?R) # [\<lambda>e. Inl NonError]"
    by simp
  have 2: "offerToErrorInterceptors [\<lambda>e. Inl e] 0 err [Fetched ?req]
             = ([Fetched ?req, ErrorIntercepted 0], Inl err)"
    by simp
  have 3: "(\<lambda>e. Inr ?R) err = Inr ?R"
    by simp
  from first_recovering_error_interceptor_ends_handling
         [of ?A, OF 1 2 3, of "\<lambda>c t. None" ?P ?cfg "[]" 0] tried
  show ?thesis
    by (simp add: upt_rec)
qed

text \<open>
  What \<open>handleError\<close> does when no interceptor recovers: with a budget \<open>r > 0\<close> in the
  configuration of the current error it sleeps \<open>1000 * 2 ^ (D - (r - 1))\<close> milliseconds,
  \<open>D\<close> being the default budget of the client (3 when that is unset or 0), and
  resubmits with the budget \<open>r - 1\<close>; otherwise it raises the current error.
\<close>

lemma handleError_unrecovered:
  assumes "offerToErrorInterceptors (errorInterceptors A) 0 err trace = (trace1, Inl current)"
  shows "handleError resubmit A err trace
         = (case retryBudget current of
              Some (cfg, r) \<Rightarrow>
                resubmit (cfg\<lparr>RequestConfig.retries := Val (r - 1)\<rparr>)
                  (trace1 @ [Slept (2 powi (orDefault (valueOf (AdapterConfig.retries
                                                (defaultConfig A))) 3 - (r - 1)) * 1000)])
            | None \<Rightarrow> Some (trace1, Inl current))"
  using assms by (simp add: handleError_def retryDelay_def split: option.splits)

lemmas http_run_simps =
  tryRequest_def applyRequestInterceptors_def applyResponseInterceptors_def mergeConfig_def
  newHttpAdapter_def spread_def nonEmpty_def buildUrl_def makeRequest_def addQueryParams_def
  newRequest_def methodOf_def requestBody_def classify_def handleError_def retryBudget_def
  retryDelay_def orDefault_def fromNetworkError_def

text \<open>
  Claim C4. The exponent counts from the default budget of the client, not from the
  budget the request started with. On a client with the default budget 3, a request
  with \<open>retries: 1\<close> whose transport always fails is submitted twice and sleeps 8000 ms
  after its first attempt, where one attempt used calls for \<open>1000 * 2 ^ 1 = 2000\<close>.
\<close>

theorem retry_delay_counts_from_default_budget:
  "map_option (\<lambda>(trace, result). (fetchCalls trace, sleeps trace))
     (request 3
        (newHttpAdapter
           \<lparr>AdapterConfig.baseURL = Absent, AdapterConfig.timeout = Absent,
            AdapterConfig.headers = Undefined, AdapterConfig.retries = Absent,
            AdapterConfig.validateStatus = Absent, AdapterConfig.transformRequest = Absent,
            AdapterConfig.transformResponse = Absent\<rparr>)
        \<lparr>fetch = (\<lambda>k q. FetchError ''TypeError'' ''down''), stringify = (\<lambda>v. ''{}''),
         parseUrl = (\<lambda>u ps. Inl ''Invalid URL''), toText = (\<lambda>v. ''v'')\<rparr>
        \<lparr>RequestConfig.method' = Absent, RequestConfig.url = Val ''https://api.x/v1'',
         RequestConfig.baseURL = Absent, RequestConfig.headers = Absent,
         RequestConfig.params = Absent, RequestConfig.data = Absent,
         RequestConfig.timeout = Absent, RequestConfig.retries = Val 1,
         RequestConfig.validateStatus = Absent, RequestConfig.transformRequest = Absent,
         RequestConfig.transformResponse = Absent, RequestConfig.signal = Absent\<rparr>
        [])
   = Some (2, [8000])"
  by (simp add: numeral_3_eq_3 http_run_simps)

text \<open>
  When the request starts with the default budget, the sleeps are \<open>1000 * 2 ^ k\<close> after
  the \<open>k\<close>-th attempt; with a larger budget they start below one second.
\<close>

lemma retry_delays_with_default_budget:
  "map_option (\<lambda>(trace, result). (fetchCalls trace, sleeps trace))
     (request 5
        (newHttpAdapter
           \<lparr>AdapterConfig.baseURL = Absent, AdapterConfig.timeout = Absent,
            AdapterConfig.headers = Undefined, AdapterConfig.retries = Absent,
            AdapterConfig.validateStatus = Absent, AdapterConfig.transformRequest = Absent,
            AdapterConfig.transformResponse = Absent\<rparr>)
        \<lparr>fetch = (\<lambda>k q. FetchError ''TypeError'' ''down''), stringify = (\<lambda>v. ''{}''),
         parseUrl = (\<lambda>u ps. Inl ''Invalid URL''), toText = (\<lambda>v. ''v'')\<rparr>
        \<lparr>RequestConfig.method' = Absent, RequestConfig.url = Val ''https://api.x/v1'',
         RequestConfig.baseURL = Absent, RequestConfig.headers = Absent,
         RequestConfig.params = Absent, RequestConfig.data = Absent,
         RequestConfig.timeout = Absent, RequestConfig.retries = Absent,
         RequestConfig.validateStatus = Absent, RequestConfig.transformRequest = Absent,
         RequestConfig.transformResponse = Absent, RequestConfig.signal = Absent\<rparr>
        [])
   = Some (4, [2000, 4000, 8000])"
  by (simp add: eval_nat_numeral http_run_simps)

lemma retry_delay_with_larger_budget:
  "map_option (\<lambda>(trace, result). take 2 (sleeps trace))
     (request 7
        (newHttpAdapter
           \<lparr>AdapterConfig.baseURL = Absent, AdapterConfig.timeout = Absent,
            AdapterConfig.headers = Undefined, AdapterConfig.retries = Absent,
            AdapterConfig.validateStatus = Absent, AdapterConfig.transformRequest = Absent,
            AdapterConfig.transformResponse = Absent\<rparr>)
        \<lparr>fetch = (\<lambda>k q. FetchError ''TypeError'' ''down''), stringify = (\<lambda>v. ''{}''),
         parseUrl = (\<lambda>u ps. Inl ''Invalid URL''), toText = (\<lambda>v. ''v'')\<rparr>
        \<lparr>RequestConfig.method' = Absent, RequestConfig.url = Val ''https://api.x/v1'',
         RequestConfig.baseURL = Absent, RequestConfig.headers = Absent,
         RequestConfig.params = Absent, RequestConfig.data = Absent,
         RequestConfig.timeout = Absent, RequestConfig.retries = Val 5,
         RequestConfig.validateStatus = Absent, RequestConfig.transformRequest = Absent,
         RequestConfig.transformResponse = Absent, RequestConfig.signal = Absent\<rparr>
        [])
   = Some [500, 1000]"
  by (simp add: eval_nat_numeral http_run_simps)

end
